theory Spec2Isabelle
  imports Complex_Main
begin

section \<open>Exceptions\<close>

text \<open>
  The classes of the exceptions that the component's control flow tells apart.
  \<open>ConfigEntryAuthFailed\<close> and \<open>ConfigEntryNotReady\<close> are Home Assistant's;
  \<open>KeyError\<close> and \<open>ValueError\<close> are raised by dictionary indexing and by
  \<open>list.remove\<close>; \<open>OtherException\<close> stands for any further subclass of Python's
  \<open>Exception\<close>, and \<open>NonException\<close> for a \<open>BaseException\<close> that is not an
  \<open>Exception\<close> (task cancellation, interpreter exit), which no \<open>except Exception\<close>
  clause catches.
\<close>

datatype exn_class =
    ConfigEntryAuthFailed
  | ConfigEntryNotReady
  | KeyError
  | ValueError
  | OtherException
  | NonException

text \<open>An exception object: its class, its \<open>str()\<close> and its \<open>__cause__\<close>.\<close>

datatype exn = Exn (cls: exn_class) (msg: string) (cause: "exn option")

definition isinstance_Exception :: "exn \<Rightarrow> bool" where
  "isinstance_Exception e = (cls e \<noteq> NonException)"

definition isinstance_ConfigEntryAuthFailed :: "exn \<Rightarrow> bool" where
  "isinstance_ConfigEntryAuthFailed e = (cls e = ConfigEntryAuthFailed)"

section \<open>Configuration data and the shared store\<close>

datatype Platform = BUTTON | SENSOR | SWITCH

definition PLATFORMS :: "Platform list" where
  "PLATFORMS = [BUTTON, SENSOR, SWITCH]"

text \<open>
  \<open>entry.data\<close> of a config entry. The component reads one key of it,
  \<open>CONF_NAME\<close> (\<open>None\<close> when the key is absent, where \<open>entry.data[CONF_NAME]\<close>
  raises \<open>KeyError\<close>); the other options are passed on unread.
\<close>

record 'o entry_data =
  CONF_NAME :: "string option"
  options :: 'o

record 'o ConfigEntry =
  data :: "'o entry_data"

text \<open>
  The dictionary stored at \<open>hass.data[DOMAIN][name]\<close>: its two keys \<open>CONFIG\<close> and
  \<open>API\<close>, each absent (\<open>None\<close>) or bound.
\<close>

record ('o, 'api) host_data =
  CONFIG :: "'o entry_data option"
  API :: "'api option"

text \<open>
  What the component calls and awaits, in the order it happens. \<open>Stored\<close> is the
  assignment of the host's dictionary into \<open>hass.data[DOMAIN]\<close>; \<open>LogError\<close> is the
  \<open>_LOGGER.error\<close> call of the setup's handler (host name, \<open>str(err)\<close>).
\<close>

datatype ('o, 'api) event =
    Constructed 'api
  | InitAwaited 'api
  | RunAwaited 'api
  | Stored string
  | ForwardAwaited "'o ConfigEntry" "Platform list"
  | LogError string string
  | DestroyAwaited 'api
  | UnloadAwaited "'o ConfigEntry" "Platform list"

text \<open>
  The part of \<open>hass\<close> the entry functions touch: \<open>hass.data.get(DOMAIN)\<close>
  (\<open>None\<close> when \<open>DOMAIN\<close> is not a key of \<open>hass.data\<close>) and the history of calls.
\<close>

record ('o, 'api) hass =
  data_DOMAIN :: "(string \<rightharpoonup> ('o, 'api) host_data) option"
  trace :: "('o, 'api) event list"

text \<open>
  The key that an indexing did not find: \<open>DOMAIN\<close> in \<open>hass.data\<close>, \<open>CONF_NAME\<close> in
  \<open>entry.data\<close>, a host name in \<open>hass.data[DOMAIN]\<close>, or \<open>API\<close> in a host's
  dictionary.
\<close>

datatype missing_key = no_DOMAIN | no_CONF_NAME | no_host string | no_API

text \<open>
  The collaborators whose code is outside this module: the \<open>DockerAPI\<close> class of
  \<open>helpers.py\<close> and Home Assistant's \<open>hass.config_entries\<close>. Each call either
  returns or raises; the outcome is a parameter. \<open>None\<close> is a normal return of a
  call whose value is not used. Each of them is called at most once in a run of an entry
  function, so an outcome that depends on the moment of the call is covered by the choice
  of the environment. The collaborators are taken not to write \<open>hass.data[DOMAIN]\<close>
  themselves. The last field is \<open>str()\<close> of the \<open>KeyError\<close> that indexing raises for
  a missing key, which is Python's \<open>repr\<close> of the key: the keys \<open>DOMAIN\<close> and \<open>API\<close>
  are constants of \<open>const.py\<close>, which is not among the sources, so the text is a
  parameter as well.
\<close>

record ('o, 'api) env =
  DockerAPI :: "'o entry_data \<Rightarrow> exn + 'api"
  init :: "'api \<Rightarrow> exn option"
  run :: "'api \<Rightarrow> exn option"
  destroy :: "'api \<Rightarrow> exn option"
  async_forward_entry_setups :: "'o ConfigEntry \<Rightarrow> Platform list \<Rightarrow> exn option"
  async_unload_platforms :: "'o ConfigEntry \<Rightarrow> Platform list \<Rightarrow> exn + bool"
  str_KeyError :: "missing_key \<Rightarrow> string"

definition emit :: "('o, 'api) event \<Rightarrow> ('o, 'api) hass \<Rightarrow> ('o, 'api) hass" where
  "emit ev h = h\<lparr>trace := trace h @ [ev]\<rparr>"

text \<open>The \<open>KeyError\<close> of indexing a dictionary with a key it does not have.\<close>

definition key_error :: "('o, 'api) env \<Rightarrow> missing_key \<Rightarrow> exn" where
  "key_error E k = Exn KeyError (str_KeyError E k) None"

section \<open>async\_setup\_entry\<close>

text \<open>\<open>if DOMAIN not in hass.data: hass.data[DOMAIN] = {}\<close>\<close>

definition ensure_domain :: "('o, 'api) hass \<Rightarrow> ('o, 'api) hass" where
  "ensure_domain h =
     (case data_DOMAIN h of
        None \<Rightarrow> h\<lparr>data_DOMAIN := Some Map.empty\<rparr>
      | Some _ \<Rightarrow> h)"

text \<open>
  The three assignments
  \<open>hass.data[DOMAIN][entry.data[CONF_NAME]] = {}\<close>, \<open>...[CONFIG] = entry.data\<close>,
  \<open>...[API] = api\<close>. The first evaluates \<open>hass.data[DOMAIN]\<close>, then
  \<open>entry.data[CONF_NAME]\<close>; either raises \<open>KeyError\<close> on a missing key (\<open>Inl\<close> of
  the key). Once the first has run, the other two cannot fail.
\<close>

definition store_host ::
  "'o entry_data \<Rightarrow> 'api \<Rightarrow> ('o, 'api) hass \<Rightarrow> missing_key + ('o, 'api) hass" where
  "store_host d api h =
     (case data_DOMAIN h of
        None \<Rightarrow> Inl no_DOMAIN
      | Some m \<Rightarrow>
          (case CONF_NAME d of
             None \<Rightarrow> Inl no_CONF_NAME
           | Some name \<Rightarrow>
               (let s0 = \<lparr>CONFIG = None, API = None\<rparr>;
                    s1 = s0\<lparr>CONFIG := Some d\<rparr>;
                    s2 = s1\<lparr>API := Some api\<rparr>
                in Inr (emit (Stored name) (h\<lparr>data_DOMAIN := Some (m(name \<mapsto> s2))\<rparr>)))))"

text \<open>
  The body of the \<open>try\<close> block. It returns the exception it raised, if any, the
  local variable \<open>api\<close> as the handlers find it, and \<open>hass\<close> as it then is.
\<close>

definition setup_try ::
  "('o, 'api) env \<Rightarrow> 'o ConfigEntry \<Rightarrow> ('o, 'api) hass
     \<Rightarrow> exn option \<times> 'api option \<times> ('o, 'api) hass" where
  "setup_try E entry h =
     (case DockerAPI E (data entry) of
        Inl e \<Rightarrow> (Some e, None, h)
      | Inr api \<Rightarrow>
          (let h1 = emit (InitAwaited api) (emit (Constructed api) h) in
           case init E api of
             Some e \<Rightarrow> (Some e, Some api, h1)
           | None \<Rightarrow>
               (let h2 = emit (RunAwaited api) h1 in
                case run E api of
                  Some e \<Rightarrow> (Some e, Some api, h2)
                | None \<Rightarrow>
                    (case store_host (data entry) api h2 of
                       Inl k \<Rightarrow> (Some (key_error E k), Some api, h2)
                     | Inr h3 \<Rightarrow>
                         (let h4 = emit (ForwardAwaited entry PLATFORMS) h3 in
                          case async_forward_entry_setups E entry PLATFORMS of
                            Some e \<Rightarrow> (Some e, Some api, h4)
                          | None \<Rightarrow> (None, Some api, h4))))))"

text \<open>
  The handler \<open>except Exception as err\<close>: log (which reads \<open>entry.data[CONF_NAME]\<close>),
  \<open>if api: await api.destroy()\<close>, then
  \<open>raise ConfigEntryNotReady(f"Failed to setup {err}") from err\<close>.
  An exception raised inside the handler replaces the one being handled. The variable
  \<open>api\<close> is \<open>None\<close> until the constructor has returned; an API object counts as
  true in \<open>if api\<close>, as an instance of a class without \<open>__bool__\<close> and
  \<open>__len__\<close> does.
\<close>

definition setup_except ::
  "('o, 'api) env \<Rightarrow> 'o ConfigEntry \<Rightarrow> exn \<Rightarrow> 'api option \<Rightarrow> ('o, 'api) hass
     \<Rightarrow> exn \<times> ('o, 'api) hass" where
  "setup_except E entry err api h =
     (case CONF_NAME (data entry) of
        None \<Rightarrow> (key_error E no_CONF_NAME, h)
      | Some name \<Rightarrow>
          (let h1 = emit (LogError name (msg err)) h;
               not_ready = Exn ConfigEntryNotReady (''Failed to setup '' @ msg err) (Some err)
           in case api of
                None \<Rightarrow> (not_ready, h1)
              | Some a \<Rightarrow>
                  (let h2 = emit (DestroyAwaited a) h1 in
                   case destroy E a of
                     Some e \<Rightarrow> (e, h2)
                   | None \<Rightarrow> (not_ready, h2))))"

definition async_setup_entry ::
  "('o, 'api) env \<Rightarrow> 'o ConfigEntry \<Rightarrow> ('o, 'api) hass \<Rightarrow> (exn + bool) \<times> ('o, 'api) hass" where
  "async_setup_entry E entry h =
     (case setup_try E entry (ensure_domain h) of
        (None, _, h') \<Rightarrow> (Inr True, h')
      | (Some err, api, h') \<Rightarrow>
          (if isinstance_ConfigEntryAuthFailed err then (Inl err, h')
           else if isinstance_Exception err then
             (case setup_except E entry err api h' of (e, h'') \<Rightarrow> (Inl e, h''))
           else (Inl err, h')))"

section \<open>async\_unload\_entry\<close>

text \<open>
  The lookup \<open>hass.data[DOMAIN][entry.data[CONF_NAME]][API]\<close>, each index failing
  on a missing key (\<open>Inl\<close> of the key), in Python's evaluation order.
\<close>

definition stored_api :: "('o, 'api) hass \<Rightarrow> 'o ConfigEntry \<Rightarrow> missing_key + 'api" where
  "stored_api h entry =
     (case data_DOMAIN h of
        None \<Rightarrow> Inl no_DOMAIN
      | Some m \<Rightarrow>
          (case CONF_NAME (data entry) of
             None \<Rightarrow> Inl no_CONF_NAME
           | Some name \<Rightarrow>
               (case m name of
                  None \<Rightarrow> Inl (no_host name)
                | Some s \<Rightarrow>
                    (case API s of
                       None \<Rightarrow> Inl no_API
                     | Some a \<Rightarrow> Inr a))))"

text \<open>
  \<open>await hass.data[DOMAIN][entry.data[CONF_NAME]][API].destroy()\<close>, then
  \<open>return await hass.config_entries.async_unload_platforms(entry, PLATFORMS)\<close>. A failed
  lookup raises its \<open>KeyError\<close> before anything is awaited.
\<close>

definition async_unload_entry ::
  "('o, 'api) env \<Rightarrow> 'o ConfigEntry \<Rightarrow> ('o, 'api) hass \<Rightarrow> (exn + bool) \<times> ('o, 'api) hass" where
  "async_unload_entry E entry h =
     (case stored_api h entry of
        Inl k \<Rightarrow> (Inl (key_error E k), h)
      | Inr a \<Rightarrow>
          (let h1 = emit (DestroyAwaited a) h in
           case destroy E a of
             Some e \<Rightarrow> (Inl e, h1)
           | None \<Rightarrow>
               (let h2 = emit (UnloadAwaited entry PLATFORMS) h1
                in (async_unload_platforms E entry PLATFORMS, h2))))"

text \<open>
  Two readings of the store: the dictionary of hosts (empty when \<open>DOMAIN\<close> is not a
  key of \<open>hass.data\<close>), and the API instances it holds under a host name.
\<close>

definition hosts :: "('o, 'api) hass \<Rightarrow> (string \<rightharpoonup> ('o, 'api) host_data)" where
  "hosts h = (case data_DOMAIN h of None \<Rightarrow> Map.empty | Some m \<Rightarrow> m)"

definition apis_of :: "('o, 'api) hass \<Rightarrow> string \<Rightarrow> 'api set" where
  "apis_of h name =
     (case hosts h name of
        None \<Rightarrow> {}
      | Some s \<Rightarrow> (case API s of None \<Rightarrow> {} | Some a \<Rightarrow> {a}))"

section \<open>async\_setup\<close>

text \<open>
  The constants of \<open>const.py\<close> that \<open>async_setup\<close> reads. The file is not among the
  sources, so their values are parameters.
\<close>

record constants =
  MONITORED_CONDITIONS_LIST :: "string list"
  CONTAINER_INFO_ALLINONE :: string

text \<open>
  One host entry of \<open>config[DOMAIN]\<close>, as \<open>CONFIG_SCHEMA\<close> hands it over: the
  list under \<open>CONF_MONITORED_CONDITIONS\<close> is present, and the other options
  (name, URL, ...) are carried along; \<open>async_setup\<close> reads the name for a debug message
  only.
\<close>

record 'o yaml_entry =
  CONF_MONITORED_CONDITIONS :: "string list"
  settings :: 'o

datatype flow_source = SOURCE_IMPORT | SOURCE_USER

text \<open>
  A task handed to \<open>hass.async_create_task\<close>:
  \<open>hass.config_entries.flow.async_init(DOMAIN, context={"source": ...}, data=entry)\<close>.
\<close>

datatype 'o task = flow_async_init flow_source "'o yaml_entry"

text \<open>How one run of a loop body ends: at its last statement, or in a \<open>return\<close>.\<close>

datatype 'a control = Continue | Return 'a

text \<open>\<open>xs.remove(x)\<close>: the first occurrence goes; \<open>ValueError\<close> when there is none.\<close>

definition list_remove :: "'a list \<Rightarrow> 'a \<Rightarrow> exn + 'a list" where
  "list_remove xs x =
     (if x \<in> set xs then Inr (remove1 x xs)
      else Inl (Exn ValueError ''list.remove(x): x not in list'' None))"

text \<open>
  The first \<open>if\<close> of the loop body: an empty list becomes a copy of
  \<open>MONITORED_CONDITIONS_LIST\<close>, from which the all-in-one condition is then removed.
  When the removal raises, the entry already holds the copy.
\<close>

definition fill_empty_conditions :: "constants \<Rightarrow> 'o yaml_entry \<Rightarrow> exn option \<times> 'o yaml_entry" where
  "fill_empty_conditions K entry =
     (if length (CONF_MONITORED_CONDITIONS entry) = 0 then
        (let entry1 = entry\<lparr>CONF_MONITORED_CONDITIONS := MONITORED_CONDITIONS_LIST K\<rparr> in
         case list_remove (CONF_MONITORED_CONDITIONS entry1) (CONTAINER_INFO_ALLINONE K) of
           Inl e \<Rightarrow> (Some e, entry1)
         | Inr xs \<Rightarrow> (None, entry1\<lparr>CONF_MONITORED_CONDITIONS := xs\<rparr>))
      else (None, entry))"

text \<open>The second \<open>if\<close>: a list that is only the all-in-one condition is expanded.\<close>

definition expand_allinone :: "constants \<Rightarrow> 'o yaml_entry \<Rightarrow> 'o yaml_entry" where
  "expand_allinone K entry =
     (if length (CONF_MONITORED_CONDITIONS entry) = 1 \<and>
         CONTAINER_INFO_ALLINONE K \<in> set (CONF_MONITORED_CONDITIONS entry)
      then entry\<lparr>CONF_MONITORED_CONDITIONS :=
                   MONITORED_CONDITIONS_LIST K @ [CONTAINER_INFO_ALLINONE K]\<rparr>
      else entry)"

text \<open>
  The body of \<open>for entry in config[DOMAIN]\<close>: both fix-ups, the task, and
  \<open>return True\<close>. It gives the entry as mutated and the tasks created so far.
\<close>

definition setup_body ::
  "constants \<Rightarrow> 'o yaml_entry \<Rightarrow> 'o task list
     \<Rightarrow> (exn + bool control) \<times> 'o yaml_entry \<times> 'o task list" where
  "setup_body K entry tasks =
     (case fill_empty_conditions K entry of
        (Some e, entry1) \<Rightarrow> (Inl e, entry1, tasks)
      | (None, entry1) \<Rightarrow>
          (let entry2 = expand_allinone K entry1
           in (Inr (Return True), entry2, tasks @ [flow_async_init SOURCE_IMPORT entry2])))"

text \<open>
  The \<open>for\<close> loop: an exception or a \<open>return\<close> of the body ends it; \<open>Inr None\<close> is
  the loop running off its end.
\<close>

fun for_entries ::
  "constants \<Rightarrow> 'o yaml_entry list \<Rightarrow> 'o task list
     \<Rightarrow> (exn + bool option) \<times> 'o yaml_entry list \<times> 'o task list" where
  "for_entries K [] tasks = (Inr None, [], tasks)"
| "for_entries K (entry # rest) tasks =
     (case setup_body K entry tasks of
        (Inl e, entry', tasks') \<Rightarrow> (Inl e, entry' # rest, tasks')
      | (Inr (Return v), entry', tasks') \<Rightarrow> (Inr (Some v), entry' # rest, tasks')
      | (Inr Continue, entry', tasks') \<Rightarrow>
          (case for_entries K rest tasks' of
             (r, rest', tasks'') \<Rightarrow> (r, entry' # rest', tasks'')))"

text \<open>
  \<open>async_setup\<close>: \<open>config.get(DOMAIN)\<close> is \<open>None\<close> when the domain has no YAML section.
  The result comes with the configuration as mutated and the tasks created.
\<close>

definition async_setup ::
  "constants \<Rightarrow> 'o yaml_entry list option \<Rightarrow> 'o task list
     \<Rightarrow> (exn + bool) \<times> 'o yaml_entry list option \<times> 'o task list" where
  "async_setup K config tasks =
     (case config of
        None \<Rightarrow> (Inr True, None, tasks)
      | Some entries \<Rightarrow>
          (case for_entries K entries tasks of
             (Inl e, entries', tasks') \<Rightarrow> (Inl e, Some entries', tasks')
           | (Inr (Some v), entries', tasks') \<Rightarrow> (Inr v, Some entries', tasks')
           | (Inr None, entries', tasks') \<Rightarrow> (Inr True, Some entries', tasks')))"

section \<open>The CPU percentage of the stats sampler\<close>

text \<open>
  One stats fetch, as far as the CPU percentage needs it: the cumulative CPU and system
  counters and the number of online CPUs.
\<close>

record cpu_sample =
  cpu_total :: nat
  system_total :: nat
  online_cpus :: nat

text \<open>
  Modelled from the spec: the stats sampler's derived CPU percentage (it lives in
  \<open>helpers.py\<close>, which is not among the sources). The percentage is
  \<open>(cpu_delta / system_delta) * online_cpus * 100\<close> from the previous cumulative
  counters; without a previous sample, or with \<open>system_delta <= 0\<close>, it is unavailable
  (\<open>None\<close>). Floating-point numbers are taken as reals.
\<close>

definition cpu_percentage :: "cpu_sample option \<Rightarrow> cpu_sample \<Rightarrow> real option" where
  "cpu_percentage previous current =
     (case previous of
        None \<Rightarrow> None
      | Some p \<Rightarrow>
          (let cpu_delta = int (cpu_total current) - int (cpu_total p);
               system_delta = int (system_total current) - int (system_total p)
           in if system_delta \<le> 0 then None
              else Some (real_of_int cpu_delta / real_of_int system_delta
                           * real (online_cpus current) * 100)))"

text \<open>
  Modelled from the spec: the firings of one container's sampling task. Each fetch
  reports a percentage against the previous sample, and then replaces it. A task starts
  (after a start or a reconnect) with no previous sample.
\<close>

fun sample_ticks :: "cpu_sample option \<Rightarrow> cpu_sample list \<Rightarrow> real option list" where
  "sample_ticks previous [] = []"
| "sample_ticks previous (s # ss) = cpu_percentage previous s # sample_ticks (Some s) ss"

section \<open>Example inputs\<close>

text \<open>
  A host entry named \<open>nas\<close>, a fresh \<open>hass\<close>, one where the host is already set up,
  and environments in which \<open>init\<close>, \<open>run\<close> and the platform setup end as given.
  API objects are numbered. In these environments a \<open>KeyError\<close> prints its key in
  single quotes, with \<open>monitor_docker\<close>, \<open>name\<close> and \<open>api\<close> for the three constants.
\<close>

definition nas_entry :: "unit ConfigEntry" where
  "nas_entry = \<lparr>data = \<lparr>CONF_NAME = Some ''nas'', options = ()\<rparr>\<rparr>"

definition fresh_hass :: "(unit, nat) hass" where
  "fresh_hass = \<lparr>data_DOMAIN = None, trace = []\<rparr>"

definition nas_hass :: "(unit, nat) hass" where
  "nas_hass =
     \<lparr>data_DOMAIN =
        Some (Map.empty(''nas'' \<mapsto> \<lparr>CONFIG = Some (data nas_entry), API = Some 7\<rparr>)),
      trace = []\<rparr>"

definition quoted :: "string \<Rightarrow> string" where
  "quoted s = [CHR 0x27] @ s @ [CHR 0x27]"

definition repr_key :: "missing_key \<Rightarrow> string" where
  "repr_key k =
     (case k of
        no_DOMAIN \<Rightarrow> quoted ''monitor_docker''
      | no_CONF_NAME \<Rightarrow> quoted ''name''
      | no_host name \<Rightarrow> quoted name
      | no_API \<Rightarrow> quoted ''api'')"

definition outcomes_env :: "exn option \<Rightarrow> exn option \<Rightarrow> exn option \<Rightarrow> (unit, nat) env" where
  "outcomes_env i r f =
     \<lparr>DockerAPI = (\<lambda>d. Inr 7),
      init = (\<lambda>a. i),
      run = (\<lambda>a. r),
      destroy = (\<lambda>a. None),
      async_forward_entry_setups = (\<lambda>entry ps. f),
      async_unload_platforms = (\<lambda>entry ps. Inr True),
      str_KeyError = repr_key\<rparr>"

definition bad_certificate :: exn where
  "bad_certificate = Exn ConfigEntryAuthFailed ''certificate rejected'' None"

definition unreachable :: exn where
  "unreachable = Exn OtherException ''connection refused'' None"

text \<open>
  A cancelled task (\<open>asyncio.CancelledError()\<close>, whose \<open>str()\<close> is empty), an error of
  \<open>destroy\<close>, an entry without \<open>CONF_NAME\<close>, an environment whose \<open>run\<close> and whose
  \<open>destroy\<close> both raise, one whose constructor gives API object 8, and a store that
  holds API 3 for host \<open>nas\<close> and API 5 for host \<open>pi\<close>.
\<close>

definition cancelled :: exn where
  "cancelled = Exn NonException [] None"

definition socket_closed :: exn where
  "socket_closed = Exn OtherException ''socket closed'' None"

definition nameless_entry :: "unit ConfigEntry" where
  "nameless_entry = \<lparr>data = \<lparr>CONF_NAME = None, options = ()\<rparr>\<rparr>"

definition failing_destroy_env :: "(unit, nat) env" where
  "failing_destroy_env =
     (outcomes_env None (Some unreachable) None)\<lparr>destroy := (\<lambda>a. Some socket_closed)\<rparr>"

definition second_env :: "(unit, nat) env" where
  "second_env = (outcomes_env None None None)\<lparr>DockerAPI := (\<lambda>d. Inr 8)\<rparr>"

definition two_hosts_hass :: "(unit, nat) hass" where
  "two_hosts_hass =
     \<lparr>data_DOMAIN =
        Some (Map.empty(''nas'' \<mapsto> \<lparr>CONFIG = Some (data nas_entry), API = Some 3\<rparr>,
                        ''pi'' \<mapsto> \<lparr>CONFIG = None, API = Some 5\<rparr>)),
      trace = []\<rparr>"

definition three_conditions :: constants where
  "three_conditions =
     \<lparr>MONITORED_CONDITIONS_LIST = [''state'', ''cpu_percentage'', ''allinone''],
      CONTAINER_INFO_ALLINONE = ''allinone''\<rparr>"

definition yaml_host :: "string list \<Rightarrow> string \<Rightarrow> string yaml_entry" where
  "yaml_host conds name = \<lparr>CONF_MONITORED_CONDITIONS = conds, settings = name\<rparr>"


section \<open>The store and the history\<close>

lemma data_DOMAIN_emit: "data_DOMAIN (emit ev h) = data_DOMAIN h"
  by (simp add: emit_def)

lemma trace_emit: "trace (emit ev h) = trace h @ [ev]"
  by (simp add: emit_def)

lemma data_DOMAIN_ensure: "data_DOMAIN (ensure_domain h) = Some (hosts h)"
  by (simp add: ensure_domain_def hosts_def split: option.splits)

lemma trace_ensure: "trace (ensure_domain h) = trace h"
  by (simp add: ensure_domain_def split: option.splits)

lemma card_apis_of: "card (apis_of h name) \<le> 1"
  by (simp add: apis_of_def split: option.splits)

section \<open>The try block, one exit at a time\<close>

lemma try_ctor_raises:
  "DockerAPI E (data entry) = Inl e \<Longrightarrow> setup_try E entry h = (Some e, None, h)"
  by (simp add: setup_try_def)

lemma try_init_raises:
  "DockerAPI E (data entry) = Inr a \<Longrightarrow> init E a = Some e \<Longrightarrow>
   setup_try E entry h = (Some e, Some a, emit (InitAwaited a) (emit (Constructed a) h))"
  by (simp add: setup_try_def)

lemma try_run_raises:
  "DockerAPI E (data entry) = Inr a \<Longrightarrow> init E a = None \<Longrightarrow> run E a = Some e \<Longrightarrow>
   setup_try E entry h =
     (Some e, Some a, emit (RunAwaited a) (emit (InitAwaited a) (emit (Constructed a) h)))"
  by (simp add: setup_try_def)

lemma try_name_missing:
  "DockerAPI E (data entry) = Inr a \<Longrightarrow> init E a = None \<Longrightarrow> run E a = None \<Longrightarrow>
   CONF_NAME (data entry) = None \<Longrightarrow> data_DOMAIN h = Some m \<Longrightarrow>
   setup_try E entry h =
     (Some (key_error E no_CONF_NAME), Some a,
      emit (RunAwaited a) (emit (InitAwaited a) (emit (Constructed a) h)))"
  by (simp add: setup_try_def store_host_def data_DOMAIN_emit)

lemma try_reaches_forward:
  "DockerAPI E (data entry) = Inr a \<Longrightarrow> init E a = None \<Longrightarrow> run E a = None \<Longrightarrow>
   CONF_NAME (data entry) = Some n \<Longrightarrow> data_DOMAIN h = Some m \<Longrightarrow>
   setup_try E entry h =
     (async_forward_entry_setups E entry PLATFORMS, Some a,
      emit (ForwardAwaited entry PLATFORMS)
        (emit (Stored n)
           ((emit (RunAwaited a) (emit (InitAwaited a) (emit (Constructed a) h)))
              \<lparr>data_DOMAIN := Some (m(n \<mapsto> \<lparr>CONFIG = Some (data entry), API = Some a\<rparr>))\<rparr>)))"
  by (cases "async_forward_entry_setups E entry PLATFORMS")
    (simp_all add: setup_try_def store_host_def data_DOMAIN_emit Let_def)

section \<open>The handlers\<close>

lemma entry_reraises_auth:
  "setup_try E entry (ensure_domain h) = (Some e, api, h') \<Longrightarrow>
   isinstance_ConfigEntryAuthFailed e \<Longrightarrow>
   async_setup_entry E entry h = (Inl e, h')"
  by (simp add: async_setup_entry_def)

text \<open>What no clause catches passes through, with no clean-up.\<close>

lemma entry_passes_non_exception:
  "setup_try E entry (ensure_domain h) = (Some e, api, h') \<Longrightarrow>
   \<not> isinstance_ConfigEntryAuthFailed e \<Longrightarrow> \<not> isinstance_Exception e \<Longrightarrow>
   async_setup_entry E entry h = (Inl e, h')"
  by (simp add: async_setup_entry_def)

lemma entry_handles_exception:
  "setup_try E entry (ensure_domain h) = (Some e, api, h') \<Longrightarrow>
   \<not> isinstance_ConfigEntryAuthFailed e \<Longrightarrow> isinstance_Exception e \<Longrightarrow>
   async_setup_entry E entry h =
     (Inl (fst (setup_except E entry e api h')), snd (setup_except E entry e api h'))"
  by (simp add: async_setup_entry_def split: prod.splits)

lemma entry_returns_True:
  "setup_try E entry (ensure_domain h) = (None, api, h') \<Longrightarrow>
   async_setup_entry E entry h = (Inr True, h')"
  by (simp add: async_setup_entry_def)

lemma entry_raise_is_no_success:
  "setup_try E entry (ensure_domain h) = (Some e, api, h') \<Longrightarrow>
   fst (async_setup_entry E entry h) \<noteq> Inr b"
  by (simp add: async_setup_entry_def split: prod.splits)

lemma except_without_api:
  "CONF_NAME (data entry) = Some n \<Longrightarrow>
   setup_except E entry e None h =
     (Exn ConfigEntryNotReady (''Failed to setup '' @ msg e) (Some e), emit (LogError n (msg e)) h)"
  by (simp add: setup_except_def)

lemma except_with_api:
  "CONF_NAME (data entry) = Some n \<Longrightarrow>
   setup_except E entry e (Some a) h =
     ((case destroy E a of
         Some e' \<Rightarrow> e'
       | None \<Rightarrow> Exn ConfigEntryNotReady (''Failed to setup '' @ msg e) (Some e)),
      emit (DestroyAwaited a) (emit (LogError n (msg e)) h))"
  by (simp add: setup_except_def split: option.splits)

text \<open>The handler of an entry without a name fails on the name before it cleans up.\<close>

lemma except_name_missing:
  "CONF_NAME (data entry) = None \<Longrightarrow>
   setup_except E entry e api h = (key_error E no_CONF_NAME, h)"
  by (simp add: setup_except_def)

lemma try_raises:
  assumes fail: "DockerAPI E (data entry) = Inl e \<or>
       (\<exists>a. DockerAPI E (data entry) = Inr a \<and>
          (init E a = Some e \<or>
           init E a = None \<and> run E a = Some e \<or>
           init E a = None \<and> run E a = None \<and> CONF_NAME (data entry) = Some n \<and>
             async_forward_entry_setups E entry PLATFORMS = Some e))"
  shows "\<exists>api h'. setup_try E entry (ensure_domain h) = (Some e, api, h') \<and>
           (\<forall>a. api = Some a \<longrightarrow> DockerAPI E (data entry) = Inr a)"
  using fail
proof (elim disjE exE conjE)
  assume "DockerAPI E (data entry) = Inl e"
  then show ?thesis by (simp add: try_ctor_raises)
next
  fix a assume "DockerAPI E (data entry) = Inr a" "init E a = Some e"
  then show ?thesis by (simp add: try_init_raises)
next
  fix a assume "DockerAPI E (data entry) = Inr a" "init E a = None" "run E a = Some e"
  then show ?thesis by (simp add: try_run_raises)
next
  fix a assume "DockerAPI E (data entry) = Inr a" "init E a = None" "run E a = None"
    "CONF_NAME (data entry) = Some n" "async_forward_entry_setups E entry PLATFORMS = Some e"
  then show ?thesis
    by (simp add: try_reaches_forward [OF _ _ _ _ data_DOMAIN_ensure])
qed

lemma try_raises_after_ctor:
  assumes api: "DockerAPI E (data entry) = Inr a"
    and fail: "init E a = Some e \<or>
           init E a = None \<and> run E a = Some e \<or>
           init E a = None \<and> run E a = None \<and> CONF_NAME (data entry) = Some n \<and>
             async_forward_entry_setups E entry PLATFORMS = Some e"
  shows "\<exists>h' evs. setup_try E entry (ensure_domain h) = (Some e, Some a, h') \<and>
           trace h' = trace h @ Constructed a # InitAwaited a # evs \<and>
           (\<forall>x. DestroyAwaited x \<notin> set evs)"
  using fail
proof (elim disjE conjE)
  assume "init E a = Some e"
  from try_init_raises [OF api this, of "ensure_domain h"]
  show ?thesis by (simp add: trace_emit trace_ensure)
next
  assume "init E a = None" "run E a = Some e"
  from try_run_raises [OF api this, of "ensure_domain h"]
  show ?thesis by (simp add: trace_emit trace_ensure)
next
  assume "init E a = None" "run E a = None" "CONF_NAME (data entry) = Some n"
    and f: "async_forward_entry_setups E entry PLATFORMS = Some e"
  from try_reaches_forward [OF api this(1,2,3) data_DOMAIN_ensure, of h] f
  show ?thesis by (simp add: trace_emit trace_ensure)
qed

text \<open>A setup that returns has gone through every step, and this is the \<open>hass\<close> it leaves.\<close>

lemma entry_success_inversion:
  assumes ok: "fst (async_setup_entry E entry h) = Inr b"
  shows "\<exists>a n. DockerAPI E (data entry) = Inr a \<and> init E a = None \<and> run E a = None \<and>
           CONF_NAME (data entry) = Some n \<and>
           async_forward_entry_setups E entry PLATFORMS = None \<and>
           async_setup_entry E entry h =
             (Inr True,
              emit (ForwardAwaited entry PLATFORMS)
                (emit (Stored n)
                   ((emit (RunAwaited a) (emit (InitAwaited a)
                       (emit (Constructed a) (ensure_domain h))))
                      \<lparr>data_DOMAIN :=
                         Some ((hosts h)(n \<mapsto> \<lparr>CONFIG = Some (data entry), API = Some a\<rparr>))\<rparr>)))"
proof (cases "DockerAPI E (data entry)")
  case (Inl e)
  from entry_raise_is_no_success [OF try_ctor_raises [OF Inl]] ok
  show ?thesis by blast
next
  case (Inr a)
  show ?thesis
  proof (cases "init E a")
    case (Some e)
    from entry_raise_is_no_success [OF try_init_raises [OF Inr Some]] ok
    show ?thesis by blast
  next
    case i: None
    show ?thesis
    proof (cases "run E a")
      case (Some e)
      from entry_raise_is_no_success [OF try_run_raises [OF Inr i Some]] ok
      show ?thesis by blast
    next
      case r: None
      show ?thesis
      proof (cases "CONF_NAME (data entry)")
        case None
        from entry_raise_is_no_success
          [OF try_name_missing [OF Inr i r None data_DOMAIN_ensure]] ok
        show ?thesis by blast
      next
        case (Some n)
        let ?h = "emit (ForwardAwaited entry PLATFORMS)
                (emit (Stored n)
                   ((emit (RunAwaited a) (emit (InitAwaited a)
                       (emit (Constructed a) (ensure_domain h))))
                      \<lparr>data_DOMAIN :=
                         Some ((hosts h)(n \<mapsto> \<lparr>CONFIG = Some (data entry), API = Some a\<rparr>))\<rparr>))"
        note t = try_reaches_forward [OF Inr i r Some data_DOMAIN_ensure, of h]
        show ?thesis
        proof (cases "async_forward_entry_setups E entry PLATFORMS")
          case f: None
          from t f have "async_setup_entry E entry h = (Inr True, ?h)"
            by (simp add: entry_returns_True)
          with Inr i r Some f show ?thesis by blast
        next
          case (Some e)
          from t Some have "setup_try E entry (ensure_domain h) = (Some e, Some a, ?h)"
            by simp
          from entry_raise_is_no_success [OF this] ok show ?thesis by blast
        qed
      qed
    qed
  qed
qed

section \<open>Setting up a host entry\<close>

text \<open>
  C1. Let a host entry be set up, and let the construction of the API, its \<open>init\<close>,
  its \<open>run\<close> or the forwarding to the platforms raise \<open>e\<close>. If \<open>e\<close> is a
  \<open>ConfigEntryAuthFailed\<close>, the caller gets \<open>e\<close> itself. If \<open>e\<close> is any other
  instance of \<open>Exception\<close>, the entry has a name (which the handler logs) and the
  clean-up \<open>destroy\<close> returns, the caller gets a \<open>ConfigEntryNotReady\<close> whose message
  is "Failed to setup " followed by \<open>str(e)\<close> and whose cause is \<open>e\<close>. In no case
  does the setup return a value.
\<close>

theorem setup_failure_auth_or_not_ready:
  assumes fail: "DockerAPI E (data entry) = Inl e \<or>
       (\<exists>a. DockerAPI E (data entry) = Inr a \<and>
          (init E a = Some e \<or>
           init E a = None \<and> run E a = Some e \<or>
           init E a = None \<and> run E a = None \<and> CONF_NAME (data entry) = Some n \<and>
             async_forward_entry_setups E entry PLATFORMS = Some e))"
  shows "(isinstance_ConfigEntryAuthFailed e \<longrightarrow> fst (async_setup_entry E entry h) = Inl e) \<and>
     (\<not> isinstance_ConfigEntryAuthFailed e \<and> isinstance_Exception e \<and>
        CONF_NAME (data entry) = Some n \<and>
        (\<forall>a. DockerAPI E (data entry) = Inr a \<longrightarrow> destroy E a = None) \<longrightarrow>
        fst (async_setup_entry E entry h) =
          Inl (Exn ConfigEntryNotReady (''Failed to setup '' @ msg e) (Some e))) \<and>
     (\<forall>b. fst (async_setup_entry E entry h) \<noteq> Inr b)"
proof -
  from try_raises [OF fail]
  obtain api h' where t: "setup_try E entry (ensure_domain h) = (Some e, api, h')"
    and api: "\<forall>a. api = Some a \<longrightarrow> DockerAPI E (data entry) = Inr a"
    by blast
  have auth: "isinstance_ConfigEntryAuthFailed e \<Longrightarrow> fst (async_setup_entry E entry h) = Inl e"
    using entry_reraises_auth [OF t] by simp
  have other: "fst (async_setup_entry E entry h) =
          Inl (Exn ConfigEntryNotReady (''Failed to setup '' @ msg e) (Some e))"
    if na: "\<not> isinstance_ConfigEntryAuthFailed e" and ex: "isinstance_Exception e"
      and name: "CONF_NAME (data entry) = Some n"
      and d: "\<forall>a. DockerAPI E (data entry) = Inr a \<longrightarrow> destroy E a = None"
  proof (cases api)
    case None
    then show ?thesis
      using entry_handles_exception [OF t na ex] name by (simp add: except_without_api)
  next
    case (Some a)
    then have "destroy E a = None" using api d by simp
    then show ?thesis
      using entry_handles_exception [OF t na ex] name Some by (simp add: except_with_api)
  qed
  have never: "fst (async_setup_entry E entry h) \<noteq> Inr b" for b
    using entry_raise_is_no_success [OF t] .
  show ?thesis using auth other never by blast
qed

theorem setup_failure_auth_or_not_ready_witness:
  "fst (async_setup_entry (outcomes_env (Some bad_certificate) None None) nas_entry fresh_hass) =
     Inl bad_certificate \<and>
   fst (async_setup_entry (outcomes_env None (Some unreachable) None) nas_entry fresh_hass) =
     Inl (Exn ConfigEntryNotReady ''Failed to setup connection refused'' (Some unreachable))"
proof -
  let ?A = "outcomes_env (Some bad_certificate) None None"
  let ?B = "outcomes_env None (Some unreachable) None"
  have failA: "DockerAPI ?A (data nas_entry) = Inl bad_certificate \<or>
       (\<exists>a. DockerAPI ?A (data nas_entry) = Inr a \<and>
          (init ?A a = Some bad_certificate \<or>
           init ?A a = None \<and> run ?A a = Some bad_certificate \<or>
           init ?A a = None \<and> run ?A a = None \<and> CONF_NAME (data nas_entry) = Some ''nas'' \<and>
             async_forward_entry_setups ?A nas_entry PLATFORMS = Some bad_certificate))"
    by (simp add: outcomes_env_def)
  have failB: "DockerAPI ?B (data nas_entry) = Inl unreachable \<or>
       (\<exists>a. DockerAPI ?B (data nas_entry) = Inr a \<and>
          (init ?B a = Some unreachable \<or>
           init ?B a = None \<and> run ?B a = Some unreachable \<or>
           init ?B a = None \<and> run ?B a = None \<and> CONF_NAME (data nas_entry) = Some ''nas'' \<and>
             async_forward_entry_setups ?B nas_entry PLATFORMS = Some unreachable))"
    by (simp add: outcomes_env_def)
  have a: "isinstance_ConfigEntryAuthFailed bad_certificate"
    by (simp add: isinstance_ConfigEntryAuthFailed_def bad_certificate_def)
  have b: "\<not> isinstance_ConfigEntryAuthFailed unreachable \<and> isinstance_Exception unreachable \<and>
        CONF_NAME (data nas_entry) = Some ''nas'' \<and>
        (\<forall>a. DockerAPI ?B (data nas_entry) = Inr a \<longrightarrow> destroy ?B a = None)"
    by (simp add: isinstance_ConfigEntryAuthFailed_def isinstance_Exception_def
        unreachable_def outcomes_env_def nas_entry_def)
  have m: "msg unreachable = ''connection refused''"
    by (simp add: unreachable_def)
  from setup_failure_auth_or_not_ready [OF failA, of fresh_hass] a
  have "fst (async_setup_entry ?A nas_entry fresh_hass) = Inl bad_certificate"
    by blast
  moreover
  from setup_failure_auth_or_not_ready [OF failB, of fresh_hass] b
  have "fst (async_setup_entry ?B nas_entry fresh_hass) =
     Inl (Exn ConfigEntryNotReady (''Failed to setup '' @ msg unreachable) (Some unreachable))"
    by blast
  ultimately show ?thesis by (simp add: m)
qed

text \<open>
  Without those three conditions the other exceptions do not all come out as
  \<open>ConfigEntryNotReady\<close>. A cancellation raised by \<open>run\<close> is not an \<open>Exception\<close>,
  passes both \<open>except\<close> clauses and reaches the caller as it is. When \<open>run\<close> fails
  and then \<open>destroy\<close> fails in the handler, the caller gets the error of \<open>destroy\<close>.
  When \<open>run\<close> fails for an entry without a name, the handler's log line raises
  \<open>KeyError\<close>, and that is what the caller gets.
\<close>

theorem setup_failure_not_always_not_ready:
  "fst (async_setup_entry (outcomes_env None (Some cancelled) None) nas_entry fresh_hass) =
     Inl (Exn NonException [] None) \<and>
   fst (async_setup_entry failing_destroy_env nas_entry fresh_hass) =
     Inl (Exn OtherException ''socket closed'' None) \<and>
   fst (async_setup_entry (outcomes_env None (Some unreachable) None) nameless_entry fresh_hass) =
     Inl (Exn KeyError (quoted ''name'') None)"
  by (simp add: async_setup_entry_def setup_try_def setup_except_def ensure_domain_def
      emit_def outcomes_env_def failing_destroy_env_def nas_entry_def nameless_entry_def
      fresh_hass_def cancelled_def unreachable_def socket_closed_def key_error_def
      repr_key_def isinstance_ConfigEntryAuthFailed_def isinstance_Exception_def)

text \<open>
  C2. Let the API object \<open>a\<close> of a host entry that has a name have been created, and
  let \<open>init\<close>, \<open>run\<close> or the forwarding to the platforms raise an instance \<open>e\<close> of
  \<open>Exception\<close> that is not a \<open>ConfigEntryAuthFailed\<close>. Then the last two things the
  setup does are to log the error and to await \<open>a.destroy()\<close>, which it has not awaited
  before; and it raises \<open>ConfigEntryNotReady\<close> only when that \<open>destroy\<close> has returned
  (what \<open>destroy\<close> raises takes its place otherwise).
\<close>

theorem setup_failure_destroys_before_not_ready:
  assumes name: "CONF_NAME (data entry) = Some n"
    and api: "DockerAPI E (data entry) = Inr a"
    and fail: "init E a = Some e \<or>
           init E a = None \<and> run E a = Some e \<or>
           init E a = None \<and> run E a = None \<and>
             async_forward_entry_setups E entry PLATFORMS = Some e"
    and na: "\<not> isinstance_ConfigEntryAuthFailed e"
    and ex: "isinstance_Exception e"
  shows "(\<exists>evs. trace (snd (async_setup_entry E entry h)) =
            trace h @ evs @ [LogError n (msg e), DestroyAwaited a] \<and>
            (\<forall>x. DestroyAwaited x \<notin> set evs)) \<and>
         fst (async_setup_entry E entry h) =
           (case destroy E a of
              None \<Rightarrow> Inl (Exn ConfigEntryNotReady (''Failed to setup '' @ msg e) (Some e))
            | Some e' \<Rightarrow> Inl e')"
proof -
  from fail name have "init E a = Some e \<or>
           init E a = None \<and> run E a = Some e \<or>
           init E a = None \<and> run E a = None \<and> CONF_NAME (data entry) = Some n \<and>
             async_forward_entry_setups E entry PLATFORMS = Some e"
    by blast
  from try_raises_after_ctor [OF api this, of h]
  obtain h' evs where t: "setup_try E entry (ensure_domain h) = (Some e, Some a, h')"
    and tr: "trace h' = trace h @ Constructed a # InitAwaited a # evs"
    and nd: "\<forall>x. DestroyAwaited x \<notin> set evs"
    by blast
  note r = entry_handles_exception [OF t na ex, unfolded except_with_api [OF name]]
  from r tr have "trace (snd (async_setup_entry E entry h)) =
      trace h @ (Constructed a # InitAwaited a # evs) @ [LogError n (msg e), DestroyAwaited a]"
    by (simp add: trace_emit)
  moreover from nd have "\<forall>x. DestroyAwaited x \<notin> set (Constructed a # InitAwaited a # evs)"
    by simp
  moreover from r have "fst (async_setup_entry E entry h) =
           (case destroy E a of
              None \<Rightarrow> Inl (Exn ConfigEntryNotReady (''Failed to setup '' @ msg e) (Some e))
            | Some e' \<Rightarrow> Inl e')"
    by (simp split: option.splits)
  ultimately show ?thesis by blast
qed

theorem setup_failure_destroys_before_not_ready_witness:
  "(\<exists>evs. trace (snd (async_setup_entry (outcomes_env None (Some unreachable) None)
                        nas_entry fresh_hass)) =
            evs @ [LogError ''nas'' ''connection refused'', DestroyAwaited 7] \<and>
          (\<forall>x. DestroyAwaited x \<notin> set evs)) \<and>
   fst (async_setup_entry (outcomes_env None (Some unreachable) None) nas_entry fresh_hass) =
     Inl (Exn ConfigEntryNotReady ''Failed to setup connection refused'' (Some unreachable))"
proof -
  let ?B = "outcomes_env None (Some unreachable) None"
  have name: "CONF_NAME (data nas_entry) = Some ''nas''"
    by (simp add: nas_entry_def)
  have api: "DockerAPI ?B (data nas_entry) = Inr 7"
    by (simp add: outcomes_env_def)
  have fail: "init ?B 7 = Some unreachable \<or>
           init ?B 7 = None \<and> run ?B 7 = Some unreachable \<or>
           init ?B 7 = None \<and> run ?B 7 = None \<and>
             async_forward_entry_setups ?B nas_entry PLATFORMS = Some unreachable"
    by (simp add: outcomes_env_def)
  have na: "\<not> isinstance_ConfigEntryAuthFailed unreachable"
    by (simp add: isinstance_ConfigEntryAuthFailed_def unreachable_def)
  have ex: "isinstance_Exception unreachable"
    by (simp add: isinstance_Exception_def unreachable_def)
  have d: "destroy ?B 7 = None"
    by (simp add: outcomes_env_def)
  have m: "msg unreachable = ''connection refused''"
    by (simp add: unreachable_def)
  have t: "trace fresh_hass = []"
    by (simp add: fresh_hass_def)
  from setup_failure_destroys_before_not_ready [OF name api fail na ex, of fresh_hass]
  show ?thesis by (simp add: d m t)
qed

text \<open>
  For a failure that is not an \<open>Exception\<close>, and for an entry without a name, the API
  object is created and no \<open>destroy\<close> follows: a cancellation raised by \<open>run\<close> goes
  to the caller with nothing awaited after \<open>run\<close>; and when \<open>run\<close> fails for an entry
  without a name, the handler raises \<open>KeyError\<close> at its log line, before the clean-up.
\<close>

theorem setup_failure_without_destroy:
  "DockerAPI (outcomes_env None (Some cancelled) None) (data nas_entry) = Inr 7 \<and>
   fst (async_setup_entry (outcomes_env None (Some cancelled) None) nas_entry fresh_hass) =
     Inl (Exn NonException [] None) \<and>
   trace (snd (async_setup_entry (outcomes_env None (Some cancelled) None) nas_entry fresh_hass)) =
     [Constructed 7, InitAwaited 7, RunAwaited 7] \<and>
   DockerAPI (outcomes_env None (Some unreachable) None) (data nameless_entry) = Inr 7 \<and>
   fst (async_setup_entry (outcomes_env None (Some unreachable) None) nameless_entry fresh_hass) =
     Inl (Exn KeyError (quoted ''name'') None) \<and>
   trace (snd (async_setup_entry (outcomes_env None (Some unreachable) None)
                 nameless_entry fresh_hass)) =
     [Constructed 7, InitAwaited 7, RunAwaited 7]"
  by (simp add: async_setup_entry_def setup_try_def setup_except_def ensure_domain_def
      emit_def outcomes_env_def nas_entry_def nameless_entry_def
      fresh_hass_def cancelled_def unreachable_def key_error_def
      repr_key_def isinstance_ConfigEntryAuthFailed_def isinstance_Exception_def)

text \<open>
  C3. When the setup of a host entry returns, it returns \<open>True\<close>, and what it has done
  is, in this order: create the API object, await its \<open>init\<close>, which returned, await
  its \<open>run\<close>, which returned, store the host under its name, and only then forward the
  entry to the platforms (button, sensor, switch), which returned as well. The API object
  is the one found in the store under the entry's name afterwards.
\<close>

theorem setup_success_order:
  assumes ok: "fst (async_setup_entry E entry h) = Inr b"
  shows "b = True \<and>
     (\<exists>a n. DockerAPI E (data entry) = Inr a \<and> init E a = None \<and> run E a = None \<and>
        CONF_NAME (data entry) = Some n \<and>
        async_forward_entry_setups E entry PLATFORMS = None \<and>
        trace (snd (async_setup_entry E entry h)) =
          trace h @ [Constructed a, InitAwaited a, RunAwaited a, Stored n,
                     ForwardAwaited entry PLATFORMS] \<and>
        stored_api (snd (async_setup_entry E entry h)) entry = Inr a)"
proof -
  from entry_success_inversion [OF ok] obtain a n where
    *: "DockerAPI E (data entry) = Inr a" "init E a = None" "run E a = None"
       "CONF_NAME (data entry) = Some n" "async_forward_entry_setups E entry PLATFORMS = None"
    and r: "async_setup_entry E entry h =
             (Inr True,
              emit (ForwardAwaited entry PLATFORMS)
                (emit (Stored n)
                   ((emit (RunAwaited a) (emit (InitAwaited a)
                       (emit (Constructed a) (ensure_domain h))))
                      \<lparr>data_DOMAIN :=
                         Some ((hosts h)(n \<mapsto> \<lparr>CONFIG = Some (data entry), API = Some a\<rparr>))\<rparr>)))"
    by blast
  from r ok have "b = True" by simp
  moreover from r have "trace (snd (async_setup_entry E entry h)) =
          trace h @ [Constructed a, InitAwaited a, RunAwaited a, Stored n,
                     ForwardAwaited entry PLATFORMS]"
    by (simp add: trace_emit trace_ensure)
  moreover from r * have "stored_api (snd (async_setup_entry E entry h)) entry = Inr a"
    by (simp add: stored_api_def data_DOMAIN_emit)
  ultimately show ?thesis using * by blast
qed

lemma nas_setup_returns:
  "fst (async_setup_entry (outcomes_env None None None) nas_entry fresh_hass) = Inr True"
  by (simp add: async_setup_entry_def setup_try_def store_host_def ensure_domain_def
      emit_def outcomes_env_def nas_entry_def fresh_hass_def)

theorem setup_success_order_witness:
  "trace (snd (async_setup_entry (outcomes_env None None None) nas_entry fresh_hass)) =
     [Constructed 7, InitAwaited 7, RunAwaited 7, Stored ''nas'',
      ForwardAwaited nas_entry [BUTTON, SENSOR, SWITCH]]"
proof -
  have api: "DockerAPI (outcomes_env None None None) (data nas_entry) = Inr a \<longleftrightarrow> a = 7" for a
    by (auto simp: outcomes_env_def)
  have name: "CONF_NAME (data nas_entry) = Some n \<longleftrightarrow> n = ''nas''" for n
    by (auto simp: nas_entry_def)
  have t: "trace fresh_hass = []"
    by (simp add: fresh_hass_def)
  from setup_success_order [OF nas_setup_returns]
  show ?thesis by (auto simp: api name t PLATFORMS_def)
qed

text \<open>
  C7. Let the API object \<open>a\<close> have been created, and let \<open>init\<close>, \<open>run\<close> or the
  forwarding to the platforms raise a \<open>ConfigEntryAuthFailed\<close>. Then the caller gets
  that exception, and between the creation of \<open>a\<close> and the end of the setup no
  \<open>destroy\<close> is awaited, neither on \<open>a\<close> nor on anything else: what \<open>init\<close>
  set up stays as it is. (For any other \<open>Exception\<close> the handler does await
  \<open>a.destroy()\<close>.)
\<close>

theorem setup_auth_failure_skips_destroy:
  assumes api: "DockerAPI E (data entry) = Inr a"
    and fail: "init E a = Some e \<or>
           init E a = None \<and> run E a = Some e \<or>
           init E a = None \<and> run E a = None \<and> CONF_NAME (data entry) = Some n \<and>
             async_forward_entry_setups E entry PLATFORMS = Some e"
    and auth: "isinstance_ConfigEntryAuthFailed e"
  shows "fst (async_setup_entry E entry h) = Inl e \<and>
     (\<exists>evs. trace (snd (async_setup_entry E entry h)) =
               trace h @ Constructed a # InitAwaited a # evs \<and>
             (\<forall>x. DestroyAwaited x \<notin> set evs))"
proof -
  from try_raises_after_ctor [OF api fail, of h]
  obtain h' evs where t: "setup_try E entry (ensure_domain h) = (Some e, Some a, h')"
    and tr: "trace h' = trace h @ Constructed a # InitAwaited a # evs"
    and nd: "\<forall>x. DestroyAwaited x \<notin> set evs"
    by blast
  from entry_reraises_auth [OF t auth] tr nd show ?thesis by auto
qed

theorem setup_auth_failure_skips_destroy_witness:
  "fst (async_setup_entry (outcomes_env None None (Some bad_certificate)) nas_entry fresh_hass) =
     Inl bad_certificate \<and>
   (\<exists>evs. trace (snd (async_setup_entry (outcomes_env None None (Some bad_certificate))
                        nas_entry fresh_hass)) =
            Constructed 7 # InitAwaited 7 # evs \<and>
          (\<forall>x. DestroyAwaited x \<notin> set evs))"
proof -
  let ?A = "outcomes_env None None (Some bad_certificate)"
  have api: "DockerAPI ?A (data nas_entry) = Inr 7"
    by (simp add: outcomes_env_def)
  have fail: "init ?A 7 = Some bad_certificate \<or>
           init ?A 7 = None \<and> run ?A 7 = Some bad_certificate \<or>
           init ?A 7 = None \<and> run ?A 7 = None \<and> CONF_NAME (data nas_entry) = Some ''nas'' \<and>
             async_forward_entry_setups ?A nas_entry PLATFORMS = Some bad_certificate"
    by (simp add: outcomes_env_def nas_entry_def)
  have auth: "isinstance_ConfigEntryAuthFailed bad_certificate"
    by (simp add: isinstance_ConfigEntryAuthFailed_def bad_certificate_def)
  have t: "trace fresh_hass = []"
    by (simp add: fresh_hass_def)
  from setup_auth_failure_skips_destroy [OF api fail auth, of fresh_hass]
  show ?thesis by (simp add: t)
qed

text \<open>
  C9. The store is a dictionary, so it holds at most one API instance under a host name.
  When the setup of a host entry returns, the store is the one before with the entry's
  name bound to the entry's own \<open>data\<close> (under \<open>CONFIG\<close>) and to the API object that this
  setup created from it (under \<open>API\<close>): under that name the store then holds this
  object and no other, and under every other name what it held before. An API object
  that was stored under the name before is replaced; the setup awaits no \<open>destroy\<close>.
\<close>

theorem setup_stores_created_api:
  assumes ok: "fst (async_setup_entry E entry h) = Inr b"
  shows "\<exists>a n. DockerAPI E (data entry) = Inr a \<and> CONF_NAME (data entry) = Some n \<and>
        hosts (snd (async_setup_entry E entry h)) =
          (hosts h)(n \<mapsto> \<lparr>CONFIG = Some (data entry), API = Some a\<rparr>) \<and>
        (\<forall>k. apis_of (snd (async_setup_entry E entry h)) k =
               (if k = n then {a} else apis_of h k)) \<and>
        (\<exists>evs. trace (snd (async_setup_entry E entry h)) = trace h @ evs \<and>
               (\<forall>x. DestroyAwaited x \<notin> set evs))"
proof -
  from entry_success_inversion [OF ok] obtain a n where
    *: "DockerAPI E (data entry) = Inr a" "CONF_NAME (data entry) = Some n"
    and r: "async_setup_entry E entry h =
             (Inr True,
              emit (ForwardAwaited entry PLATFORMS)
                (emit (Stored n)
                   ((emit (RunAwaited a) (emit (InitAwaited a)
                       (emit (Constructed a) (ensure_domain h))))
                      \<lparr>data_DOMAIN :=
                         Some ((hosts h)(n \<mapsto> \<lparr>CONFIG = Some (data entry), API = Some a\<rparr>))\<rparr>)))"
    by blast
  from r have d: "hosts (snd (async_setup_entry E entry h)) =
       (hosts h)(n \<mapsto> \<lparr>CONFIG = Some (data entry), API = Some a\<rparr>)"
    by (simp add: data_DOMAIN_emit hosts_def)
  then have k: "apis_of (snd (async_setup_entry E entry h)) k =
               (if k = n then {a} else apis_of h k)" for k
    by (simp add: apis_of_def)
  from r have "trace (snd (async_setup_entry E entry h)) =
       trace h @ [Constructed a, InitAwaited a, RunAwaited a, Stored n,
                  ForwardAwaited entry PLATFORMS]"
    by (simp add: trace_emit trace_ensure)
  moreover have "\<forall>x. DestroyAwaited x \<notin> set [Constructed a, InitAwaited a, RunAwaited a,
                  Stored n, ForwardAwaited entry PLATFORMS]"
    by simp
  ultimately have "\<exists>evs. trace (snd (async_setup_entry E entry h)) = trace h @ evs \<and>
               (\<forall>x. DestroyAwaited x \<notin> set evs)"
    by blast
  with * d k show ?thesis by blast
qed

lemma two_hosts_setup_returns:
  "fst (async_setup_entry (outcomes_env None None None) nas_entry two_hosts_hass) = Inr True"
  by (simp add: async_setup_entry_def setup_try_def store_host_def ensure_domain_def
      emit_def outcomes_env_def nas_entry_def two_hosts_hass_def)

text \<open>
  On a fresh \<open>hass\<close> the host appears in the store; on a store that holds API 3 for
  \<open>nas\<close> and API 5 for \<open>pi\<close>, the new API 7 takes the place of 3 and 5 stays.
\<close>

theorem setup_stores_created_api_witness:
  "hosts fresh_hass ''nas'' = None \<and>
   hosts (snd (async_setup_entry (outcomes_env None None None) nas_entry fresh_hass)) ''nas'' =
     Some \<lparr>CONFIG = Some (data nas_entry), API = Some 7\<rparr> \<and>
   apis_of two_hosts_hass ''nas'' = {3} \<and>
   apis_of (snd (async_setup_entry (outcomes_env None None None) nas_entry two_hosts_hass))
     ''nas'' = {7} \<and>
   apis_of (snd (async_setup_entry (outcomes_env None None None) nas_entry two_hosts_hass))
     ''pi'' = {5}"
proof -
  have api: "DockerAPI (outcomes_env None None None) (data nas_entry) = Inr a \<longleftrightarrow> a = 7" for a
    by (auto simp: outcomes_env_def)
  have name: "CONF_NAME (data nas_entry) = Some n \<longleftrightarrow> n = ''nas''" for n
    by (auto simp: nas_entry_def)
  have before: "hosts fresh_hass ''nas'' = None" "apis_of two_hosts_hass ''nas'' = {3}"
    "apis_of two_hosts_hass ''pi'' = {5}"
    by (simp_all add: hosts_def apis_of_def fresh_hass_def two_hosts_hass_def)
  from setup_stores_created_api [OF nas_setup_returns]
  have "hosts (snd (async_setup_entry (outcomes_env None None None) nas_entry fresh_hass)) ''nas'' =
     Some \<lparr>CONFIG = Some (data nas_entry), API = Some 7\<rparr>"
    by (auto simp: api name)
  moreover
  from setup_stores_created_api [OF two_hosts_setup_returns]
  have "\<forall>k. apis_of (snd (async_setup_entry (outcomes_env None None None) nas_entry
                  two_hosts_hass)) k =
             (if k = ''nas'' then {7} else apis_of two_hosts_hass k)"
    by (auto simp: api name)
  then have "apis_of (snd (async_setup_entry (outcomes_env None None None) nas_entry
                 two_hosts_hass)) ''nas'' = {7}"
    and "apis_of (snd (async_setup_entry (outcomes_env None None None) nas_entry
                 two_hosts_hass)) ''pi'' = apis_of two_hosts_hass ''pi''"
    by simp_all
  ultimately show ?thesis using before by simp
qed

text \<open>
  One API per host name in the store is not one live API per host. Two setups under the
  name \<open>nas\<close>, one after the other, both return \<open>True\<close>: API 7 and API 8 have both been
  initialised and run, none has been destroyed, and the store knows only API 8.
\<close>

theorem second_setup_leaves_first_api_running:
  "fst (async_setup_entry (outcomes_env None None None) nas_entry fresh_hass) = Inr True \<and>
   fst (async_setup_entry second_env nas_entry
          (snd (async_setup_entry (outcomes_env None None None) nas_entry fresh_hass))) =
     Inr True \<and>
   trace (snd (async_setup_entry second_env nas_entry
          (snd (async_setup_entry (outcomes_env None None None) nas_entry fresh_hass)))) =
     [Constructed 7, InitAwaited 7, RunAwaited 7, Stored ''nas'',
      ForwardAwaited nas_entry [BUTTON, SENSOR, SWITCH],
      Constructed 8, InitAwaited 8, RunAwaited 8, Stored ''nas'',
      ForwardAwaited nas_entry [BUTTON, SENSOR, SWITCH]] \<and>
   apis_of (snd (async_setup_entry second_env nas_entry
          (snd (async_setup_entry (outcomes_env None None None) nas_entry fresh_hass))))
     ''nas'' = {8}"
  by (simp add: async_setup_entry_def setup_try_def store_host_def ensure_domain_def
      emit_def outcomes_env_def second_env_def nas_entry_def fresh_hass_def
      apis_of_def hosts_def PLATFORMS_def)

section \<open>Unloading a host entry\<close>

text \<open>
  C5. Let \<open>a\<close> be the API stored for the entry's host. Unloading the entry first awaits
  \<open>a.destroy()\<close>. When that returns, it then awaits the unloading of the platforms and
  hands on what that gives, be it a value or an exception; when \<open>destroy\<close> raises, the
  platforms are not unloaded and the exception goes to the caller.
\<close>

theorem unload_destroys_then_unloads:
  assumes st: "stored_api h entry = Inr a"
  shows "(\<exists>evs. trace (snd (async_unload_entry E entry h)) = trace h @ DestroyAwaited a # evs) \<and>
     (destroy E a = None \<longrightarrow>
        async_unload_entry E entry h =
          (async_unload_platforms E entry PLATFORMS,
           h\<lparr>trace := trace h @ [DestroyAwaited a, UnloadAwaited entry PLATFORMS]\<rparr>)) \<and>
     (\<forall>e. destroy E a = Some e \<longrightarrow>
        async_unload_entry E entry h = (Inl e, h\<lparr>trace := trace h @ [DestroyAwaited a]\<rparr>))"
  using st by (cases "destroy E a") (simp_all add: async_unload_entry_def emit_def)

theorem unload_destroys_then_unloads_witness:
  "async_unload_entry (outcomes_env None None None) nas_entry nas_hass =
     (Inr True,
      nas_hass\<lparr>trace := [DestroyAwaited 7, UnloadAwaited nas_entry [BUTTON, SENSOR, SWITCH]]\<rparr>)"
proof -
  let ?E = "outcomes_env None None None"
  have st: "stored_api nas_hass nas_entry = Inr 7"
    by (simp add: stored_api_def nas_hass_def nas_entry_def)
  have d: "destroy ?E 7 = None"
    by (simp add: outcomes_env_def)
  have u: "async_unload_platforms ?E nas_entry ps = Inr True" for ps
    by (simp add: outcomes_env_def)
  have t: "trace nas_hass = []"
    by (simp add: nas_hass_def)
  from unload_destroys_then_unloads [OF st, of ?E] d
  have "async_unload_entry ?E nas_entry nas_hass =
          (async_unload_platforms ?E nas_entry PLATFORMS,
           nas_hass\<lparr>trace := trace nas_hass @ [DestroyAwaited 7, UnloadAwaited nas_entry PLATFORMS]\<rparr>)"
    by blast
  then show ?thesis by (simp add: u t PLATFORMS_def)
qed

section \<open>Importing the YAML configuration\<close>

lemma count_list_remove1:
  "x \<in> set xs \<Longrightarrow> count_list (remove1 x xs) x = count_list xs x - 1"
  by (induction xs) auto

lemma count_one_in_set: "count_list xs x = 1 \<Longrightarrow> x \<in> set xs"
  using count_list_0_iff [of xs x] by auto

lemma count_one_removed: "count_list xs x = 1 \<Longrightarrow> x \<notin> set (remove1 x xs)"
  using count_list_remove1 [of x xs] count_one_in_set [of xs x]
    count_list_0_iff [of "remove1 x xs" x] by simp

text \<open>
  The loop body on one entry: unless the removal of the all-in-one condition raises, the
  body creates one task, for the entry as fixed up, and returns \<open>True\<close>.
\<close>

lemma body_returns:
  assumes "CONTAINER_INFO_ALLINONE K \<in> set (MONITORED_CONDITIONS_LIST K) \<or>
           CONF_MONITORED_CONDITIONS entry \<noteq> []"
  shows "setup_body K entry tasks =
     (Inr (Return True),
      expand_allinone K (snd (fill_empty_conditions K entry)),
      tasks @ [flow_async_init SOURCE_IMPORT
                 (expand_allinone K (snd (fill_empty_conditions K entry)))])"
  using assms
  by (auto simp: setup_body_def fill_empty_conditions_def list_remove_def Let_def)

lemma body_raises:
  assumes "CONTAINER_INFO_ALLINONE K \<notin> set (MONITORED_CONDITIONS_LIST K)"
    and "CONF_MONITORED_CONDITIONS entry = []"
  shows "setup_body K entry tasks =
     (Inl (Exn ValueError ''list.remove(x): x not in list'' None),
      entry\<lparr>CONF_MONITORED_CONDITIONS := MONITORED_CONDITIONS_LIST K\<rparr>, tasks)"
  using assms
  by (simp add: setup_body_def fill_empty_conditions_def list_remove_def Let_def)

lemma setup_stops_at_first:
  assumes "CONTAINER_INFO_ALLINONE K \<in> set (MONITORED_CONDITIONS_LIST K) \<or>
           CONF_MONITORED_CONDITIONS entry \<noteq> []"
  shows "async_setup K (Some (entry # rest)) tasks =
     (Inr True,
      Some (expand_allinone K (snd (fill_empty_conditions K entry)) # rest),
      tasks @ [flow_async_init SOURCE_IMPORT
                 (expand_allinone K (snd (fill_empty_conditions K entry)))])"
  by (simp add: async_setup_def body_returns [OF assms])

lemma fixup_changes_conditions_only:
  "expand_allinone K (snd (fill_empty_conditions K entry)) =
   entry\<lparr>CONF_MONITORED_CONDITIONS :=
           CONF_MONITORED_CONDITIONS (expand_allinone K (snd (fill_empty_conditions K entry)))\<rparr>"
  by (simp add: expand_allinone_def fill_empty_conditions_def Let_def split: sum.splits)

lemma fixup_of_empty:
  assumes "count_list (MONITORED_CONDITIONS_LIST K) (CONTAINER_INFO_ALLINONE K) = 1"
    and "CONF_MONITORED_CONDITIONS entry = []"
  shows "expand_allinone K (snd (fill_empty_conditions K entry)) =
     entry\<lparr>CONF_MONITORED_CONDITIONS :=
             remove1 (CONTAINER_INFO_ALLINONE K) (MONITORED_CONDITIONS_LIST K)\<rparr>"
  using assms count_one_in_set [OF assms(1)] count_one_removed [OF assms(1)]
  by (simp add: expand_allinone_def fill_empty_conditions_def list_remove_def Let_def)

lemma fixup_of_allinone:
  assumes "CONF_MONITORED_CONDITIONS entry = [CONTAINER_INFO_ALLINONE K]"
  shows "expand_allinone K (snd (fill_empty_conditions K entry)) =
     entry\<lparr>CONF_MONITORED_CONDITIONS :=
             MONITORED_CONDITIONS_LIST K @ [CONTAINER_INFO_ALLINONE K]\<rparr>"
  using assms
  by (simp add: expand_allinone_def fill_empty_conditions_def Let_def)

text \<open>
  C4. Let \<open>MONITORED_CONDITIONS_LIST\<close> contain the all-in-one condition, and let the
  YAML configuration have one or more host entries. Then \<open>async_setup\<close> returns \<open>True\<close>
  having created exactly one task: the import flow of the first entry (whose
  condition list the fix-up may have replaced). The entries after the first are left as
  they were, and no task is created for them.
\<close>

theorem async_setup_imports_first_entry_only:
  assumes "CONTAINER_INFO_ALLINONE K \<in> set (MONITORED_CONDITIONS_LIST K)"
  shows "\<exists>conds. async_setup K (Some (entry # rest)) tasks =
     (Inr True,
      Some (entry\<lparr>CONF_MONITORED_CONDITIONS := conds\<rparr> # rest),
      tasks @ [flow_async_init SOURCE_IMPORT (entry\<lparr>CONF_MONITORED_CONDITIONS := conds\<rparr>)])"
proof -
  let ?e = "expand_allinone K (snd (fill_empty_conditions K entry))"
  from assms have "async_setup K (Some (entry # rest)) tasks =
     (Inr True, Some (?e # rest), tasks @ [flow_async_init SOURCE_IMPORT ?e])"
    by (simp add: setup_stops_at_first)
  with fixup_changes_conditions_only [of K entry] show ?thesis by metis
qed

theorem async_setup_imports_first_entry_only_witness:
  "async_setup three_conditions
     (Some [yaml_host [''state''] ''nas'', yaml_host [''cpu_percentage''] ''pi'']) [] =
   (Inr True,
    Some [yaml_host [''state''] ''nas'', yaml_host [''cpu_percentage''] ''pi''],
    [flow_async_init SOURCE_IMPORT (yaml_host [''state''] ''nas'')])"
proof -
  have k: "CONTAINER_INFO_ALLINONE three_conditions
             \<in> set (MONITORED_CONDITIONS_LIST three_conditions)"
    by (simp add: three_conditions_def)
  from async_setup_imports_first_entry_only [OF k,
      of "yaml_host [''state''] ''nas''" "[yaml_host [''cpu_percentage''] ''pi'']" "[]"]
  obtain conds where r: "async_setup three_conditions
       (Some [yaml_host [''state''] ''nas'', yaml_host [''cpu_percentage''] ''pi'']) [] =
     (Inr True,
      Some [(yaml_host [''state''] ''nas'')\<lparr>CONF_MONITORED_CONDITIONS := conds\<rparr>,
            yaml_host [''cpu_percentage''] ''pi''],
      [flow_async_init SOURCE_IMPORT
         ((yaml_host [''state''] ''nas'')\<lparr>CONF_MONITORED_CONDITIONS := conds\<rparr>)])"
    by auto
  have "CONF_MONITORED_CONDITIONS
          (hd (the (fst (snd (async_setup three_conditions
            (Some [yaml_host [''state''] ''nas'', yaml_host [''cpu_percentage''] ''pi'']) []))))) =
        [''state'']"
    by (simp add: async_setup_def setup_body_def fill_empty_conditions_def
        expand_allinone_def yaml_host_def three_conditions_def Let_def)
  with r have "conds = [''state'']" by simp
  with r show ?thesis by (simp add: yaml_host_def)
qed

text \<open>
  C8. Let \<open>MONITORED_CONDITIONS_LIST\<close> contain the all-in-one condition, once. If the
  condition list of an entry is empty, the loop body of \<open>async_setup\<close> replaces it
  by \<open>MONITORED_CONDITIONS_LIST\<close> without the all-in-one condition. If the condition
  list is the all-in-one condition alone, the body replaces it by
  \<open>MONITORED_CONDITIONS_LIST\<close> with one more all-in-one condition appended, a list in
  which that condition occurs twice. In both cases the replaced list is what the import
  task is given, and \<open>async_setup\<close> does so to the entry it works on, the first.
\<close>

theorem async_setup_fixes_conditions:
  assumes once: "count_list (MONITORED_CONDITIONS_LIST K) (CONTAINER_INFO_ALLINONE K) = 1"
  shows "(CONF_MONITORED_CONDITIONS entry = [] \<longrightarrow>
            (let fixed = entry\<lparr>CONF_MONITORED_CONDITIONS :=
                  remove1 (CONTAINER_INFO_ALLINONE K) (MONITORED_CONDITIONS_LIST K)\<rparr>
             in setup_body K entry tasks =
                  (Inr (Return True), fixed, tasks @ [flow_async_init SOURCE_IMPORT fixed]) \<and>
                async_setup K (Some (entry # rest)) tasks =
                  (Inr True, Some (fixed # rest),
                   tasks @ [flow_async_init SOURCE_IMPORT fixed])) \<and>
            CONTAINER_INFO_ALLINONE K
              \<notin> set (remove1 (CONTAINER_INFO_ALLINONE K) (MONITORED_CONDITIONS_LIST K))) \<and>
         (CONF_MONITORED_CONDITIONS entry = [CONTAINER_INFO_ALLINONE K] \<longrightarrow>
            (let fixed = entry\<lparr>CONF_MONITORED_CONDITIONS :=
                  MONITORED_CONDITIONS_LIST K @ [CONTAINER_INFO_ALLINONE K]\<rparr>
             in setup_body K entry tasks =
                  (Inr (Return True), fixed, tasks @ [flow_async_init SOURCE_IMPORT fixed]) \<and>
                async_setup K (Some (entry # rest)) tasks =
                  (Inr True, Some (fixed # rest),
                   tasks @ [flow_async_init SOURCE_IMPORT fixed])) \<and>
            count_list (MONITORED_CONDITIONS_LIST K @ [CONTAINER_INFO_ALLINONE K])
              (CONTAINER_INFO_ALLINONE K) = 2)"
proof -
  note inside = count_one_in_set [OF once]
  have empty: "let fixed = entry\<lparr>CONF_MONITORED_CONDITIONS :=
                  remove1 (CONTAINER_INFO_ALLINONE K) (MONITORED_CONDITIONS_LIST K)\<rparr>
             in setup_body K entry tasks =
                  (Inr (Return True), fixed, tasks @ [flow_async_init SOURCE_IMPORT fixed]) \<and>
                async_setup K (Some (entry # rest)) tasks =
                  (Inr True, Some (fixed # rest),
                   tasks @ [flow_async_init SOURCE_IMPORT fixed])"
    if "CONF_MONITORED_CONDITIONS entry = []"
    using inside
    by (simp add: setup_stops_at_first body_returns fixup_of_empty [OF once that])
  have single: "let fixed = entry\<lparr>CONF_MONITORED_CONDITIONS :=
                  MONITORED_CONDITIONS_LIST K @ [CONTAINER_INFO_ALLINONE K]\<rparr>
             in setup_body K entry tasks =
                  (Inr (Return True), fixed, tasks @ [flow_async_init SOURCE_IMPORT fixed]) \<and>
                async_setup K (Some (entry # rest)) tasks =
                  (Inr True, Some (fixed # rest),
                   tasks @ [flow_async_init SOURCE_IMPORT fixed])"
    if "CONF_MONITORED_CONDITIONS entry = [CONTAINER_INFO_ALLINONE K]"
    using inside
    by (simp add: setup_stops_at_first body_returns fixup_of_allinone [OF that])
  have twice: "count_list (MONITORED_CONDITIONS_LIST K @ [CONTAINER_INFO_ALLINONE K])
              (CONTAINER_INFO_ALLINONE K) = 2"
    using once by simp
  from empty single twice count_one_removed [OF once] show ?thesis by blast
qed

theorem async_setup_fixes_conditions_witness:
  "async_setup three_conditions (Some [yaml_host [] ''nas'']) [] =
     (Inr True,
      Some [yaml_host [''state'', ''cpu_percentage''] ''nas''],
      [flow_async_init SOURCE_IMPORT (yaml_host [''state'', ''cpu_percentage''] ''nas'')]) \<and>
   async_setup three_conditions (Some [yaml_host [''allinone''] ''nas'']) [] =
     (Inr True,
      Some [yaml_host [''state'', ''cpu_percentage'', ''allinone'', ''allinone''] ''nas''],
      [flow_async_init SOURCE_IMPORT
         (yaml_host [''state'', ''cpu_percentage'', ''allinone'', ''allinone''] ''nas'')])"
proof -
  have once: "count_list (MONITORED_CONDITIONS_LIST three_conditions)
                (CONTAINER_INFO_ALLINONE three_conditions) = 1"
    by (simp add: three_conditions_def)
  have e: "CONF_MONITORED_CONDITIONS (yaml_host [] ''nas'') = []"
    by (simp add: yaml_host_def)
  have a: "CONF_MONITORED_CONDITIONS (yaml_host [''allinone''] ''nas'') =
             [CONTAINER_INFO_ALLINONE three_conditions]"
    by (simp add: yaml_host_def three_conditions_def)
  have r1: "(yaml_host [] ''nas'')\<lparr>CONF_MONITORED_CONDITIONS :=
               remove1 (CONTAINER_INFO_ALLINONE three_conditions)
                 (MONITORED_CONDITIONS_LIST three_conditions)\<rparr> =
            yaml_host [''state'', ''cpu_percentage''] ''nas''"
    by (simp add: yaml_host_def three_conditions_def)
  have r2: "(yaml_host [''allinone''] ''nas'')\<lparr>CONF_MONITORED_CONDITIONS :=
               MONITORED_CONDITIONS_LIST three_conditions
                 @ [CONTAINER_INFO_ALLINONE three_conditions]\<rparr> =
            yaml_host [''state'', ''cpu_percentage'', ''allinone'', ''allinone''] ''nas''"
    by (simp add: yaml_host_def three_conditions_def)
  from async_setup_fixes_conditions [OF once, of "yaml_host [] ''nas''" "[]" "[]"] e
  have "async_setup three_conditions (Some [yaml_host [] ''nas'']) [] =
     (Inr True,
      Some [yaml_host [''state'', ''cpu_percentage''] ''nas''],
      [flow_async_init SOURCE_IMPORT (yaml_host [''state'', ''cpu_percentage''] ''nas'')])"
    by (simp only: r1 Let_def append_Nil simp_thms)
  moreover
  from async_setup_fixes_conditions [OF once, of "yaml_host [''allinone''] ''nas''" "[]" "[]"] a
  have "async_setup three_conditions (Some [yaml_host [''allinone''] ''nas'']) [] =
     (Inr True,
      Some [yaml_host [''state'', ''cpu_percentage'', ''allinone'', ''allinone''] ''nas''],
      [flow_async_init SOURCE_IMPORT
         (yaml_host [''state'', ''cpu_percentage'', ''allinone'', ''allinone''] ''nas'')])"
    by (simp only: r2 Let_def append_Nil simp_thms)
  ultimately show ?thesis by blast
qed

section \<open>The CPU percentage over a run of fetches\<close>



lemma length_sample_ticks: "length (sample_ticks previous ss) = length ss"
  by (induction ss arbitrary: previous) simp_all






end
